theory Spec2Isabelle
  imports Complex_Main
begin

section \<open>Profile export pipeline of \<open>services/patch.py\<close>\<close>

text \<open>
  The development embeds \<open>PyroscopePprofHTTPExporter\<close> and \<open>patch_ddtrace_to_pyroscope\<close>.
  Python \<open>bytes\<close> and \<open>str\<close> values are byte lists (a \<open>str\<close> stands for its UTF-8
  encoding), Python integers are \<open>int\<close>, dictionaries are association lists in insertion
  order, and a raised exception is the left injection of a sum.
\<close>

subsection \<open>Bytes, decimal and hexadecimal rendering\<close>

type_synonym bytes = string

definition CRLF :: bytes where
  "CRLF = [CHR 0x0D, CHR 0x0A]"

definition DQUOTE :: bytes where
  "DQUOTE = [CHR 0x22]"

definition digit_chars :: string where
  "digit_chars = ''0123456789''"

text \<open>Python's \<open>str(n)\<close> on an integer: decimal digits, a leading minus sign when negative.\<close>

fun str_nat :: "nat \<Rightarrow> string" where
  "str_nat n =
     (if n < 10 then [digit_chars ! n]
      else str_nat (n div 10) @ [digit_chars ! (n mod 10)])"

declare str_nat.simps [simp del]

definition str_int :: "int \<Rightarrow> string" where
  "str_int i = (if i < 0 then ''-'' @ str_nat (nat (- i)) else str_nat (nat i))"

subsection \<open>Exceptions\<close>

text \<open>
  The exception classes that take part in an upload. \<open>OSError\<close> stands for \<open>OSError\<close> and
  its subclasses (\<open>IOError\<close> is the same class; connection errors and timeouts derive from
  it), \<open>HTTPException\<close> for \<open>http_client.HTTPException\<close>, \<open>TryAgain\<close> for
  \<open>tenacity.TryAgain\<close>, \<open>ExportError\<close> for \<open>exporter.ExportError\<close> with its message.
  \<open>UploadFailed e\<close> is the \<open>retry_error_cls\<close> instance that the retrying controller
  builds around the last attempt, whose exception was \<open>e\<close>. \<open>OtherException\<close> is any
  exception outside these classes.
\<close>

datatype exn =
    HTTPException string
  | OSError string
  | TryAgain
  | ExportError string
  | UploadFailed exn
  | OtherException string

subsection \<open>The exporter object and its requests\<close>

record exporter =
  service_name :: string
  token :: string
  endpoint :: string
  max_retry_delay :: rat
  enable_code_provenance :: bool

text \<open>\<open>__init__\<close>, with the defaults of its signature passed by the caller.\<close>

definition PyroscopePprofHTTPExporter :: "string \<Rightarrow> string \<Rightarrow> string \<Rightarrow> rat \<Rightarrow> bool \<Rightarrow> exporter" where
  "PyroscopePprofHTTPExporter sn tok ep mrd ecp =
     \<lparr>service_name = sn, token = tok, endpoint = ep, max_retry_delay = mrd,
      enable_code_provenance = ecp\<rparr>"

datatype pyval = PStr string | PInt int

type_synonym params = "(string \<times> pyval) list"
type_synonym headers = "(string \<times> bytes) list"

record request =
  req_method :: string
  url :: string
  body :: bytes
  req_headers :: headers

text \<open>
  What the connection does with one request: it delivers a response with a status, or
  \<open>client.request\<close>/\<open>client.getresponse\<close> raise an \<open>HTTPException\<close>, an \<open>OSError\<close>
  (connection refused or reset, timeout, any other I/O failure) or an exception of another
  class.
\<close>

datatype http_result =
    Status int
  | RaisesHTTPException string
  | RaisesOSError string
  | RaisesOther string

type_synonym transport = "request \<Rightarrow> http_result"

subsection \<open>\<open>urllib.parse.urlencode\<close>\<close>

definition hex_upper :: string where
  "hex_upper = ''0123456789ABCDEF''"

definition always_safe :: "char \<Rightarrow> bool" where
  "always_safe c =
     (c \<in> set ''ABCDEFGHIJKLMNOPQRSTUVWXYZabcdefghijklmnopqrstuvwxyz0123456789_.-~'')"

text \<open>
  \<open>quote_plus\<close> with its default empty \<open>safe\<close> argument: unreserved bytes stay, a space
  becomes a plus sign, every other byte becomes \<open>%XX\<close> in upper-case hexadecimal.
\<close>

definition quote_byte :: "char \<Rightarrow> string" where
  "quote_byte c =
     (if always_safe c then [c]
      else if c = CHR '' '' then ''+''
      else CHR ''%'' # [hex_upper ! (of_char c div 16), hex_upper ! (of_char c mod 16)])"

definition quote_plus :: "string \<Rightarrow> string" where
  "quote_plus s = concat (map quote_byte s)"

fun py_str :: "pyval \<Rightarrow> string" where
  "py_str (PStr s) = s"
| "py_str (PInt i) = str_int i"

fun join :: "string \<Rightarrow> string list \<Rightarrow> string" where
  "join sep [] = []"
| "join sep [x] = x"
| "join sep (x # y # ys) = x @ sep @ join sep (y # ys)"

definition urlencode :: "params \<Rightarrow> string" where
  "urlencode query = join ''&'' (map (\<lambda>(k, v). quote_plus k @ ''='' @ quote_plus (py_str v)) query)"

subsection \<open>\<open>_assemble_url\<close> and \<open>_upload_once\<close>\<close>

definition assemble_url :: "exporter \<Rightarrow> params \<Rightarrow> string" where
  "assemble_url self ps = endpoint self @ ''?'' @ urlencode ps"

definition upload_request :: "exporter \<Rightarrow> bytes \<Rightarrow> headers \<Rightarrow> params \<Rightarrow> request" where
  "upload_request self bdy hdrs ps =
     \<lparr>req_method = ''POST'', url = assemble_url self ps, body = bdy, req_headers = hdrs\<rparr>"

definition upload_once :: "exporter \<Rightarrow> bytes \<Rightarrow> headers \<Rightarrow> params \<Rightarrow> transport \<Rightarrow> exn + unit" where
  "upload_once self bdy hdrs ps client =
     (case client (upload_request self bdy hdrs ps) of
        RaisesHTTPException m \<Rightarrow> Inl (HTTPException m)
      | RaisesOSError m \<Rightarrow> Inl (OSError m)
      | RaisesOther m \<Rightarrow> Inl (OtherException m)
      | Status status \<Rightarrow>
          if 200 \<le> status \<and> status < 300 then Inr ()
          else if 500 \<le> status then Inl TryAgain
          else if status = 400 then Inl (ExportError ''Server returned 400, check your API key.'')
          else if status = 404 then Inl (ExportError ''Server returned 404, check your endpoint path.'')
          else Inl (ExportError (''POST to '' @ assemble_url self ps @ '', but got '' @ str_int status)))"

subsection \<open>The retrying controller configured in \<open>__init__\<close>\<close>

text \<open>
  \<open>tenacity.Retrying(wait=wait_random_exponential(multiplier=0.5),
  stop=stop_after_delay(max_retry_delay), retry_error_cls=UploadFailed,
  retry=retry_if_exception_type((HTTPException, OSError, IOError)))\<close>.
\<close>

definition retry_if_exception_type :: "exn \<Rightarrow> bool" where
  "retry_if_exception_type e =
     (case e of HTTPException _ \<Rightarrow> True | OSError _ \<Rightarrow> True | _ \<Rightarrow> False)"

definition stop_after_delay :: "rat \<Rightarrow> rat \<Rightarrow> bool" where
  "stop_after_delay max_delay seconds_since_start = (seconds_since_start \<ge> max_delay)"

text \<open>
  One run of the controller's loop. The environment supplies, for each attempt in turn,
  the argument the operation runs against and the clock reading \<open>seconds_since_start\<close>
  taken when its outcome is recorded (the random back-off sleeps are part of these
  readings). After an attempt: a result is returned; an exception that is neither
  \<open>TryAgain\<close> nor accepted by the \<open>retry\<close> predicate is re-raised as it is; otherwise the
  \<open>stop\<close> predicate decides between raising \<open>retry_error_cls\<close> around the attempt and
  another attempt. The value carries the number of attempts made; \<open>None\<close> says that the
  environment was used up before the loop ended.
\<close>

fun Retrying :: "rat \<Rightarrow> ('c \<Rightarrow> exn + 'a) \<Rightarrow> ('c \<times> rat) list \<Rightarrow> ((exn + 'a) \<times> nat) option" where
  "Retrying max_delay fn [] = None"
| "Retrying max_delay fn ((c, seconds_since_start) # rest) =
     (case fn c of
        Inr r \<Rightarrow> Some (Inr r, 1)
      | Inl e \<Rightarrow>
          if \<not> (e = TryAgain \<or> retry_if_exception_type e) then Some (Inl e, 1)
          else if stop_after_delay max_delay seconds_since_start then Some (Inl (UploadFailed e), 1)
          else map_option (\<lambda>(r, n). (r, Suc n)) (Retrying max_delay fn rest))"

definition retry_upload ::
  "exporter \<Rightarrow> bytes \<Rightarrow> headers \<Rightarrow> params \<Rightarrow> (transport \<times> rat) list \<Rightarrow> ((exn + unit) \<times> nat) option" where
  "retry_upload self bdy hdrs ps env =
     Retrying (max_retry_delay self) (upload_once self bdy hdrs ps) env"

subsection \<open>\<open>_encode_multipart_formdata\<close>\<close>

definition hex_lower :: string where
  "hex_lower = ''0123456789abcdef''"

text \<open>\<open>binascii.hexlify\<close>: two lower-case hexadecimal digits for each byte.\<close>

definition hexlify :: "bytes \<Rightarrow> bytes" where
  "hexlify bs =
     concat (map (\<lambda>c. [hex_lower ! (of_char c div 16), hex_lower ! (of_char c mod 16)]) bs)"

text \<open>
  The \<open>%\<close> operator on \<open>bytes\<close>, for templates whose only conversion is \<open>%s\<close> with
  \<open>bytes\<close> arguments. \<open>None\<close> is the \<open>TypeError\<close> (or \<open>ValueError\<close>) of a template that
  does not fit its arguments.
\<close>

fun bytes_format :: "bytes \<Rightarrow> bytes list \<Rightarrow> bytes option" where
  "bytes_format [] [] = Some []"
| "bytes_format [] (a # as) = None"
| "bytes_format (c # cs) args =
     (if c = CHR ''%'' then
        (case cs of
           [] \<Rightarrow> None
         | d # ds \<Rightarrow>
             (case args of
                [] \<Rightarrow> None
              | a # as \<Rightarrow> if d = CHR ''s'' then map_option ((@) a) (bytes_format ds as) else None))
      else map_option ((#) c) (bytes_format cs args))"

definition part_head_template :: bytes where
  "part_head_template =
     ''--%s'' @ CRLF @ ''Content-Disposition: form-data; name='' @ DQUOTE @ ''%s'' @ DQUOTE
       @ ''; filename='' @ DQUOTE @ ''%s'' @ DQUOTE @ CRLF"

definition encode_part :: "bytes \<Rightarrow> bytes \<times> bytes \<Rightarrow> bytes option" where
  "encode_part boundary item =
     (case item of (field_name, field_data) \<Rightarrow>
        map_option
          (\<lambda>h. h @ (''Content-Type: application/octet-stream'' @ CRLF @ CRLF) @ field_data @ CRLF)
          (bytes_format part_head_template [boundary, field_name, field_name]))"

text \<open>A generator expression that raises in one of its items raises as a whole.\<close>

fun collect :: "'a option list \<Rightarrow> 'a list option" where
  "collect [] = Some []"
| "collect (None # xs) = None"
| "collect (Some x # xs) = map_option ((#) x) (collect xs)"

text \<open>
  The first argument is the value of \<open>os.urandom(16)\<close> in this call. The result is the
  pair \<open>(content_type, body)\<close>.
\<close>

definition encode_multipart_formdata :: "bytes \<Rightarrow> (bytes \<times> bytes) list \<Rightarrow> (bytes \<times> bytes) option" where
  "encode_multipart_formdata urandom16 data =
     (let boundary = hexlify urandom16 in
      case collect (map (encode_part boundary) data) of
        None \<Rightarrow> None
      | Some parts \<Rightarrow>
          (case bytes_format ''--%s--'' [boundary] of
             None \<Rightarrow> None
           | Some terminator \<Rightarrow>
               (case bytes_format ''multipart/form-data; boundary=%s'' [boundary] of
                  None \<Rightarrow> None
                | Some content_type \<Rightarrow> Some (content_type, concat parts @ terminator))))"

subsection \<open>\<open>SAMPLE_TYPE_CONFIG\<close> and its serialisation\<close>

datatype json = JString string | JBool bool | JObject "(string \<times> json) list"

definition sample_type :: "string \<Rightarrow> string \<Rightarrow> string \<Rightarrow> bool \<Rightarrow> json" where
  "sample_type units aggregation display_name sampled =
     JObject [(''units'', JString units), (''aggregation'', JString aggregation),
              (''display-name'', JString display_name), (''sampled'', JBool sampled)]"

definition SAMPLE_TYPE_CONFIG :: json where
  "SAMPLE_TYPE_CONFIG =
     JObject [(''cpu-time'', sample_type ''samples'' ''sum'' ''cpu_time'' True),
              (''wall-time'', sample_type ''samples'' ''sum'' ''wall_time'' True),
              (''alloc-space'', sample_type ''bytes'' ''sum'' ''alloc_space'' True),
              (''heap-space'', sample_type ''bytes'' ''average'' ''heap_space'' False)]"

text \<open>
  \<open>json.dumps\<close> with its default separators on strings, booleans and dictionaries with
  string keys. Of the string escapes only those of the double quote and the backslash
  are written out: every string of \<open>SAMPLE_TYPE_CONFIG\<close> is printable ASCII.
\<close>

definition json_escape :: "string \<Rightarrow> string" where
  "json_escape s =
     concat (map (\<lambda>c. if c = CHR 0x22 \<or> c = CHR 0x5C then [CHR 0x5C, c] else [c]) s)"

definition json_string :: "string \<Rightarrow> string" where
  "json_string s = DQUOTE @ json_escape s @ DQUOTE"

fun json_dumps :: "json \<Rightarrow> string" where
  "json_dumps (JString s) = json_string s"
| "json_dumps (JBool b) = (if b then ''true'' else ''false'')"
| "json_dumps (JObject kvs) =
     ''{'' @ join '', '' (map (\<lambda>kv. json_string (fst kv) @ '': '' @ json_dumps (snd kv)) kvs) @ ''}''"

text \<open>The module-level constant; \<open>.encode()\<close> leaves ASCII text as it is.\<close>

definition SAMPLE_TYPE_CONFIG_JSON :: bytes where
  "SAMPLE_TYPE_CONFIG_JSON = json_dumps SAMPLE_TYPE_CONFIG"

subsection \<open>\<open>export\<close>\<close>

text \<open>
  What \<open>export\<close> takes from outside the module: the inherited \<open>PprofExporter.export\<close>,
  the profile's \<open>SerializeToString\<close>, the bytes that a \<open>GzipFile\<close> opened for writing on an
  empty buffer has left in it once the data is written and the file closed, the value of
  \<open>os.urandom(16)\<close>, and the connection and clock of each upload attempt.
\<close>

record ('ev, 'p, 'l) host =
  pprof_export :: "'ev \<Rightarrow> int \<Rightarrow> int \<Rightarrow> 'p \<times> 'l"
  SerializeToString :: "'p \<Rightarrow> bytes"
  gzip_closed :: "bytes \<Rightarrow> bytes"
  urandom16 :: bytes
  attempts :: "(transport \<times> rat) list"

definition export_data :: "('ev, 'p, 'l) host \<Rightarrow> 'p \<Rightarrow> (bytes \<times> bytes) list" where
  "export_data h profile =
     [(''profile'', gzip_closed h (SerializeToString h profile)),
      (''sample_type_config'', SAMPLE_TYPE_CONFIG_JSON)]"

definition export_params :: "exporter \<Rightarrow> int \<Rightarrow> int \<Rightarrow> params" where
  "export_params self start_time_ns end_time_ns =
     [(''name'', PStr (service_name self)), (''spyName'', PStr ''ddtrace''),
      (''from'', PInt start_time_ns), (''until'', PInt end_time_ns)]"

definition export_headers :: "exporter \<Rightarrow> bytes \<Rightarrow> headers" where
  "export_headers self content_type =
     [(''Content-Type'', content_type), (''Authorization'', ''Bearer '' @ token self)]"

text \<open>
  The value is \<open>Inr (profile, libs)\<close> when \<open>export\<close> returns and \<open>Inl e\<close> when it raises
  \<open>e\<close>; \<open>None\<close> when the retrying loop outlives the attempts the host describes.
\<close>

definition export :: "exporter \<Rightarrow> ('ev, 'p, 'l) host \<Rightarrow> 'ev \<Rightarrow> int \<Rightarrow> int \<Rightarrow> (exn + 'p \<times> 'l) option" where
  "export self h events start_time_ns end_time_ns =
     (case pprof_export h events start_time_ns end_time_ns of (profile, libs) \<Rightarrow>
        (case encode_multipart_formdata (urandom16 h) (export_data h profile) of
           None \<Rightarrow> Some (Inl (OtherException ''TypeError''))
         | Some (content_type, bdy) \<Rightarrow>
             (case retry_upload self bdy (export_headers self content_type)
                     (export_params self start_time_ns end_time_ns) (attempts h) of
                None \<Rightarrow> None
              | Some (Inl e, n) \<Rightarrow> Some (Inl e)
              | Some (Inr u, n) \<Rightarrow> Some (Inr (profile, libs)))))"

text \<open>The request that every attempt of one \<open>export\<close> call sends.\<close>

definition export_request :: "exporter \<Rightarrow> ('ev, 'p, 'l) host \<Rightarrow> 'ev \<Rightarrow> int \<Rightarrow> int \<Rightarrow> request option" where
  "export_request self h events start_time_ns end_time_ns =
     (case pprof_export h events start_time_ns end_time_ns of (profile, libs) \<Rightarrow>
        map_option
          (\<lambda>(content_type, bdy).
             upload_request self bdy (export_headers self content_type)
               (export_params self start_time_ns end_time_ns))
          (encode_multipart_formdata (urandom16 h) (export_data h profile)))"

subsection \<open>\<open>patch_ddtrace_to_pyroscope\<close>\<close>

text \<open>
  The process state the patch writes to: \<open>os.environ\<close> and the class attribute
  \<open>_ProfilerInstance._build_default_exporters\<close>, a method of the profiler instance.
\<close>

record 'self process =
  environ :: "string \<rightharpoonup> string"
  build_default_exporters :: "'self \<Rightarrow> exporter list"

definition patch_ddtrace_to_pyroscope ::
  "string \<Rightarrow> string \<Rightarrow> string \<Rightarrow> bool \<Rightarrow> 'self process \<Rightarrow> 'self process" where
  "patch_ddtrace_to_pyroscope sn tok ep enable_memory_profiling w =
     (let w1 = (if \<not> enable_memory_profiling
                then w\<lparr>environ := (environ w)(''DD_PROFILING_MEMORY_ENABLED'' \<mapsto> ''False'')\<rparr>
                else w)
      in w1\<lparr>build_default_exporters :=
               (\<lambda>self. [PyroscopePprofHTTPExporter sn tok ep 3 False])\<rparr>)"

subsection \<open>The wire format in the specification's words, and example values\<close>

text \<open>
  One part of the body as the specification frames it: the boundary line, the content
  disposition naming the field twice, the content type, an empty line, the payload and a
  closing line break.
\<close>

definition multipart_part :: "bytes \<Rightarrow> bytes \<times> bytes \<Rightarrow> bytes" where
  "multipart_part boundary item =
     ''--'' @ boundary @ CRLF
     @ ''Content-Disposition: form-data; name='' @ DQUOTE @ fst item @ DQUOTE
     @ ''; filename='' @ DQUOTE @ fst item @ DQUOTE @ CRLF
     @ ''Content-Type: application/octet-stream'' @ CRLF @ CRLF
     @ snd item @ CRLF"

definition quoted :: "string \<Rightarrow> string" where
  "quoted s = DQUOTE @ s @ DQUOTE"

fun json_keys :: "json \<Rightarrow> string list" where
  "json_keys (JObject kvs) = map fst kvs"
| "json_keys _ = []"

text \<open>A connection that answers every request in the same way.\<close>

definition fixed_response :: "http_result \<Rightarrow> transport" where
  "fixed_response r req = r"

definition demo_exporter :: exporter where
  "demo_exporter =
     PyroscopePprofHTTPExporter ''helloworld'' ''tok123'' ''http://pyroscope:4040/ingest'' 3 False"

definition no_token_exporter :: exporter where
  "no_token_exporter =
     PyroscopePprofHTTPExporter ''helloworld'' [] ''http://pyroscope:4040/ingest'' 3 False"

definition demo_params :: params where
  "demo_params = export_params demo_exporter 1000 2000"

definition demo_urandom :: bytes where
  "demo_urandom =
     [CHR 0x00, CHR 0x01, CHR 0x7F, CHR 0x80, CHR 0xFF, CHR 0x10, CHR 0xAB, CHR 0xCD,
      CHR 0x0A, CHR 0x0D, CHR 0x22, CHR 0x25, CHR 0x2D, CHR 0x5C, CHR 0x99, CHR 0xE3]"

text \<open>The stream a \<open>GzipFile\<close> with a zero time stamp holds for the three bytes \<open>abc\<close>.\<close>

definition abc_gzip :: bytes where
  "abc_gzip =
     [CHR 0x1F, CHR 0x8B, CHR 0x08, CHR 0x00, CHR 0x00, CHR 0x00, CHR 0x00, CHR 0x00,
      CHR 0x02, CHR 0xFF, CHR 0x4B, CHR 0x4C, CHR 0x4A, CHR 0x06, CHR 0x00, CHR 0xC2,
      CHR 0x41, CHR 0x24, CHR 0x35, CHR 0x03, CHR 0x00, CHR 0x00, CHR 0x00]"

text \<open>
  An example host: the profile serialises to \<open>abc\<close>, the only buffer this host
  compresses; the first upload attempt is answered with status 503 after 0.1 seconds, the
  second with status 200 after 0.6 seconds.
\<close>

definition demo_host :: "(unit, bytes, string list) host" where
  "demo_host =
     \<lparr>pprof_export = (\<lambda>events s e. (''abc'', [''libpython3.so''])),
      SerializeToString = (\<lambda>profile. profile),
      gzip_closed = (\<lambda>b. abc_gzip),
      urandom16 = demo_urandom,
      attempts = [(fixed_response (Status 503), 1 / 10), (fixed_response (Status 200), 6 / 10)]\<rparr>"

text \<open>
  Three upload attempts: status 503 after half a second, a timeout after one second,
  status 404 after two seconds.
\<close>

definition demo_attempts :: "(transport \<times> rat) list" where
  "demo_attempts =
     [(fixed_response (Status 503), 1 / 2), (fixed_response (RaisesOSError ''timed out''), 1),
      (fixed_response (Status 404), 2)]"

section \<open>Properties\<close>

subsection \<open>Auxiliary facts\<close>

lemma of_char_less_256: "(of_char c :: nat) < 256"
proof -
  have "(of_char c :: nat) mod 256 < 256" by simp
  then show ?thesis by (simp only: of_char_mod_256)
qed

lemma hex_lower_nth: "i < 16 \<Longrightarrow> hex_lower ! i \<in> set hex_lower"
  by (rule nth_mem) (simp add: hex_lower_def)

lemma length_hexlify: "length (hexlify bs) = 2 * length bs"
  by (induction bs) (simp_all add: hexlify_def)

lemma set_hexlify: "set (hexlify bs) \<subseteq> set hex_lower"
proof (induction bs)
  case Nil
  then show ?case by (simp add: hexlify_def)
next
  case (Cons c bs)
  have "(of_char c :: nat) div 16 < 16"
    by (rule less_mult_imp_div_less) (use of_char_less_256 [of c] in simp)
  moreover have "(of_char c :: nat) mod 16 < 16" by simp
  ultimately show ?case
    using Cons hex_lower_nth by (simp add: hexlify_def)
qed

lemma bytes_format_part_head:
  "bytes_format part_head_template [b, f, f] =
     Some (''--'' @ b @ CRLF @ ''Content-Disposition: form-data; name='' @ DQUOTE @ f @ DQUOTE
           @ ''; filename='' @ DQUOTE @ f @ DQUOTE @ CRLF)"
  by (simp add: part_head_template_def CRLF_def DQUOTE_def)

lemma encode_part_eq: "encode_part b item = Some (multipart_part b item)"
  by (cases item) (simp add: encode_part_def multipart_part_def bytes_format_part_head)

lemma collect_encode_parts:
  "collect (map (encode_part b) data) = Some (map (multipart_part b) data)"
  by (induction data) (simp_all add: encode_part_eq)

lemma bytes_format_terminator: "bytes_format ''--%s--'' [b] = Some (''--'' @ b @ ''--'')"
  by simp

lemma bytes_format_content_type:
  "bytes_format ''multipart/form-data; boundary=%s'' [b] =
     Some (''multipart/form-data; boundary='' @ b)"
  by simp

lemma encode_multipart_formdata_eq:
  "encode_multipart_formdata rnd data =
     Some (''multipart/form-data; boundary='' @ hexlify rnd,
           concat (map (multipart_part (hexlify rnd)) data) @ ''--'' @ hexlify rnd @ ''--'')"
  by (simp add: encode_multipart_formdata_def Let_def collect_encode_parts
        bytes_format_terminator bytes_format_content_type del: bytes_format.simps)

lemma hexlify_demo_urandom: "hexlify demo_urandom = ''00017f80ff10abcd0a0d22252d5c99e3''"
  by (simp add: hexlify_def demo_urandom_def hex_lower_def)

lemma export_request_eq:
  "export_request self h events s e =
     Some (upload_request self
       (concat (map (multipart_part (hexlify (urandom16 h)))
                  (export_data h (fst (pprof_export h events s e))))
        @ ''--'' @ hexlify (urandom16 h) @ ''--'')
       (export_headers self (''multipart/form-data; boundary='' @ hexlify (urandom16 h)))
       (export_params self s e))"
  by (cases "pprof_export h events s e")
    (simp add: export_request_def encode_multipart_formdata_eq)

text \<open>Every attempt of an export call is made with the request \<open>export_request\<close> gives.\<close>

lemma export_via_request:
  assumes "export_request self h events s e = Some req"
  shows "upload_request self (body req) (req_headers req) (export_params self s e) = req \<and>
     export self h events s e =
       (case retry_upload self (body req) (req_headers req) (export_params self s e) (attempts h) of
          None \<Rightarrow> None
        | Some (Inl x, n) \<Rightarrow> Some (Inl x)
        | Some (Inr u, n) \<Rightarrow> Some (Inr (pprof_export h events s e)))"
proof -
  obtain profile libs where p: "pprof_export h events s e = (profile, libs)"
    by (cases "pprof_export h events s e")
  from assms have r: "req = upload_request self
       (concat (map (multipart_part (hexlify (urandom16 h))) (export_data h profile))
        @ ''--'' @ hexlify (urandom16 h) @ ''--'')
       (export_headers self (''multipart/form-data; boundary='' @ hexlify (urandom16 h)))
       (export_params self s e)"
    by (simp add: export_request_eq p)
  show ?thesis
    unfolding r
    by (simp add: upload_request_def export_def p encode_multipart_formdata_eq
        split: option.splits sum.splits prod.splits)
qed

text \<open>Every attempt but the last of a finished run failed in a retried way within the budget.\<close>

lemma Retrying_attempt:
  "Retrying md fn env = Some (res, n) \<Longrightarrow> Suc i < n \<Longrightarrow>
     i < length env \<and>
     (\<exists>e. fn (fst (env ! i)) = Inl e \<and> (e = TryAgain \<or> retry_if_exception_type e) \<and>
          \<not> stop_after_delay md (snd (env ! i)))"
proof (induction env arbitrary: res n i)
  case Nil
  then show ?case by simp
next
  case (Cons a env)
  obtain c t where a: "a = (c, t)" by (cases a)
  show ?case
  proof (cases "fn c")
    case (Inr r)
    with Cons.prems a show ?thesis by simp
  next
    case (Inl e)
    show ?thesis
    proof (cases "(e = TryAgain \<or> retry_if_exception_type e) \<and> \<not> stop_after_delay md t")
      case False
      with Cons.prems a Inl show ?thesis by (auto split: if_splits)
    next
      case True
      with Cons.prems a Inl obtain res' n' where
        r: "Retrying md fn env = Some (res', n')" and n: "n = Suc n'" and "res = res'"
        by (auto split: if_splits)
      show ?thesis
      proof (cases i)
        case 0
        with True a Inl show ?thesis by simp
      next
        case (Suc j)
        with Cons.prems n have "Suc j < n'" by simp
        from Cons.IH [OF r this] Suc show ?thesis by simp
      qed
    qed
  qed
qed


lemma upload_once_retried:
  assumes "upload_once self bdy hdrs ps client = Inl e"
    and "e = TryAgain \<or> retry_if_exception_type e"
  shows "(\<exists>s. client (upload_request self bdy hdrs ps) = Status s \<and> 500 \<le> s) \<or>
     (\<exists>m. client (upload_request self bdy hdrs ps) = RaisesHTTPException m) \<or>
     (\<exists>m. client (upload_request self bdy hdrs ps) = RaisesOSError m)"
  using assms
  by (cases "client (upload_request self bdy hdrs ps)")
    (auto simp: upload_once_def retry_if_exception_type_def split: if_splits)

lemma retry_upload_demo_attempts:
  "retry_upload demo_exporter [] [] demo_params demo_attempts =
     Some (Inl (ExportError ''Server returned 404, check your endpoint path.''), 3)"
  by (simp add: retry_upload_def demo_attempts_def upload_once_def fixed_response_def
      retry_if_exception_type_def stop_after_delay_def demo_exporter_def
      PyroscopePprofHTTPExporter_def)

lemma quote_plus_safe: "\<forall>c \<in> set s. always_safe c \<Longrightarrow> quote_plus s = s"
  by (induction s) (simp_all add: quote_plus_def quote_byte_def)

lemma digit_chars_safe: "n < 10 \<Longrightarrow> always_safe (digit_chars ! n)"
proof -
  assume "n < 10"
  then have "digit_chars ! n \<in> set digit_chars"
    by (intro nth_mem) (simp add: digit_chars_def)
  then show ?thesis by (auto simp: digit_chars_def always_safe_def)
qed

lemma str_nat_safe: "\<forall>c \<in> set (str_nat n). always_safe c"
proof (induction n rule: str_nat.induct)
  case (1 n)
  show ?case
  proof (cases "n < 10")
    case True
    then show ?thesis by (subst str_nat.simps) (simp add: digit_chars_safe)
  next
    case False
    with 1 show ?thesis by (subst str_nat.simps) (simp add: digit_chars_safe)
  qed
qed

lemma str_int_safe: "\<forall>c \<in> set (str_int i). always_safe c"
  using str_nat_safe by (auto simp: str_int_def always_safe_def)

lemma quote_plus_str_int: "quote_plus (str_int i) = str_int i"
  by (rule quote_plus_safe) (rule str_int_safe)

lemma urlencode_export_params:
  "urlencode (export_params self f u) =
     ''name='' @ quote_plus (service_name self) @ ''&spyName=ddtrace&from='' @ str_int f
       @ ''&until='' @ str_int u"
proof -
  have "quote_plus ''name'' = ''name''" "quote_plus ''spyName'' = ''spyName''"
    "quote_plus ''ddtrace'' = ''ddtrace''" "quote_plus ''from'' = ''from''"
    "quote_plus ''until'' = ''until''"
    by (simp_all add: quote_plus_def quote_byte_def always_safe_def)
  then show ?thesis
    by (simp add: urlencode_def export_params_def quote_plus_str_int)
qed

lemma export_demo:
  "export demo_exporter demo_host () 1000 2000 = Some (Inr (''abc'', [''libpython3.so'']))"
  by (simp add: export_def encode_multipart_formdata_eq demo_host_def retry_upload_def
      upload_once_def fixed_response_def retry_if_exception_type_def stop_after_delay_def
      demo_exporter_def PyroscopePprofHTTPExporter_def)

lemma SAMPLE_TYPE_CONFIG_JSON_eq:
  "SAMPLE_TYPE_CONFIG_JSON =
     ''{'' @ quoted ''cpu-time'' @ '': {'' @ quoted ''units'' @ '': '' @ quoted ''samples'' @ '', ''
       @ quoted ''aggregation'' @ '': '' @ quoted ''sum'' @ '', ''
       @ quoted ''display-name'' @ '': '' @ quoted ''cpu_time'' @ '', ''
       @ quoted ''sampled'' @ '': true}, ''
     @ quoted ''wall-time'' @ '': {'' @ quoted ''units'' @ '': '' @ quoted ''samples'' @ '', ''
       @ quoted ''aggregation'' @ '': '' @ quoted ''sum'' @ '', ''
       @ quoted ''display-name'' @ '': '' @ quoted ''wall_time'' @ '', ''
       @ quoted ''sampled'' @ '': true}, ''
     @ quoted ''alloc-space'' @ '': {'' @ quoted ''units'' @ '': '' @ quoted ''bytes'' @ '', ''
       @ quoted ''aggregation'' @ '': '' @ quoted ''sum'' @ '', ''
       @ quoted ''display-name'' @ '': '' @ quoted ''alloc_space'' @ '', ''
       @ quoted ''sampled'' @ '': true}, ''
     @ quoted ''heap-space'' @ '': {'' @ quoted ''units'' @ '': '' @ quoted ''bytes'' @ '', ''
       @ quoted ''aggregation'' @ '': '' @ quoted ''average'' @ '', ''
       @ quoted ''display-name'' @ '': '' @ quoted ''heap_space'' @ '', ''
       @ quoted ''sampled'' @ '': false}}''"
  by (simp add: SAMPLE_TYPE_CONFIG_JSON_def SAMPLE_TYPE_CONFIG_def sample_type_def
      json_string_def json_escape_def quoted_def DQUOTE_def)

subsection \<open>Status classification\<close>

text \<open>
  C1 (as the code has it). When the connection answers one upload attempt with status
  \<open>s\<close>: a status from 200 to 299 makes \<open>_upload_once\<close> return; every status of 500 or
  more, the statuses from 600 on included, makes it raise \<open>TryAgain\<close>, the retryable
  failure; 400 raises the export error that tells to check the API key, 404 the one
  that tells to check the endpoint path; every other status (below 200, 3xx, 401, 403
  and the rest of 4xx) raises the export error whose message holds the request URL and
  the status code.
\<close>

theorem upload_once_classification:
  assumes "client (upload_request self bdy hdrs ps) = Status s"
  shows "(200 \<le> s \<and> s \<le> 299 \<longrightarrow> upload_once self bdy hdrs ps client = Inr ()) \<and>
     (500 \<le> s \<longrightarrow> upload_once self bdy hdrs ps client = Inl TryAgain) \<and>
     (s = 400 \<longrightarrow> upload_once self bdy hdrs ps client =
        Inl (ExportError ''Server returned 400, check your API key.'')) \<and>
     (s = 404 \<longrightarrow> upload_once self bdy hdrs ps client =
        Inl (ExportError ''Server returned 404, check your endpoint path.'')) \<and>
     (s < 200 \<or> (300 \<le> s \<and> s < 500 \<and> s \<noteq> 400 \<and> s \<noteq> 404) \<longrightarrow>
        upload_once self bdy hdrs ps client =
          Inl (ExportError (''POST to '' @ assemble_url self ps @ '', but got '' @ str_int s)))"
  using assms by (auto simp: upload_once_def)

lemma urlencode_demo_params:
  "urlencode demo_params = ''name=helloworld&spyName=ddtrace&from=1000&until=2000''"
  by (simp add: demo_params_def export_params_def demo_exporter_def
      PyroscopePprofHTTPExporter_def urlencode_def quote_plus_def quote_byte_def
      always_safe_def str_int_def str_nat.simps digit_chars_def)

lemma generic_message_demo:
  "''POST to '' @ assemble_url demo_exporter demo_params @ '', but got '' @ str_int 401 =
   ''POST to http://pyroscope:4040/ingest?name=helloworld&spyName=ddtrace&from=1000&until=2000, but got 401''"
  by (simp add: assemble_url_def urlencode_demo_params str_int_def str_nat.simps
      digit_chars_def demo_exporter_def PyroscopePprofHTTPExporter_def)

theorem upload_once_classification_witness:
  "upload_once demo_exporter [] [] demo_params (fixed_response (Status 204)) = Inr () \<and>
   upload_once demo_exporter [] [] demo_params (fixed_response (Status 503)) = Inl TryAgain \<and>
   upload_once demo_exporter [] [] demo_params (fixed_response (Status 400)) =
     Inl (ExportError ''Server returned 400, check your API key.'') \<and>
   upload_once demo_exporter [] [] demo_params (fixed_response (Status 404)) =
     Inl (ExportError ''Server returned 404, check your endpoint path.'') \<and>
   upload_once demo_exporter [] [] demo_params (fixed_response (Status 401)) =
     Inl (ExportError
       ''POST to http://pyroscope:4040/ingest?name=helloworld&spyName=ddtrace&from=1000&until=2000, but got 401'')"
  using
    upload_once_classification
      [of "fixed_response (Status 204)" demo_exporter "[]" "[]" demo_params 204]
    upload_once_classification
      [of "fixed_response (Status 503)" demo_exporter "[]" "[]" demo_params 503]
    upload_once_classification
      [of "fixed_response (Status 400)" demo_exporter "[]" "[]" demo_params 400]
    upload_once_classification
      [of "fixed_response (Status 404)" demo_exporter "[]" "[]" demo_params 404]
    upload_once_classification
      [of "fixed_response (Status 401)" demo_exporter "[]" "[]" demo_params 401]
    generic_message_demo
  by (simp add: fixed_response_def)

text \<open>
  The specification's table ends the retryable range at 599 and makes a status of 600
  or more a terminal failure with the generic message. The code answers status 600 with
  \<open>TryAgain\<close>.
\<close>

theorem upload_once_status_600_counterexample:
  "upload_once demo_exporter [] [] demo_params (fixed_response (Status 600)) = Inl TryAgain \<and>
   upload_once demo_exporter [] [] demo_params (fixed_response (Status 600)) \<noteq>
     Inl (ExportError
       (''POST to '' @ assemble_url demo_exporter demo_params @ '', but got '' @ str_int 600))"
  by (simp add: upload_once_def fixed_response_def)

subsection \<open>The Authorization header\<close>

text \<open>
  C2 (as the code has it). The request of every export call carries the header
  \<open>Authorization\<close> with the value \<open>Bearer\<close>, a space and the token, whether a token is
  configured or not; with an empty token the value is \<open>Bearer\<close> and the space.
\<close>

theorem export_request_authorization:
  "\<exists>req. export_request self h events s e = Some req \<and>
         map_of (req_headers req) ''Authorization'' = Some (''Bearer '' @ token self)"
  by (simp add: export_request_eq upload_request_def export_headers_def)

text \<open>
  With no token configured the specification wants no \<open>Authorization\<close> header at all.
  The request of the exporter without token has one.
\<close>

theorem no_token_authorization_counterexample:
  "map_option req_headers (export_request no_token_exporter demo_host () 1000 2000) =
     Some [(''Content-Type'', ''multipart/form-data; boundary=00017f80ff10abcd0a0d22252d5c99e3''),
           (''Authorization'', ''Bearer '')]"
  by (simp add: export_request_eq upload_request_def export_headers_def demo_host_def
      hexlify_demo_urandom no_token_exporter_def PyroscopePprofHTTPExporter_def)

subsection \<open>When the upload is retried\<close>

text \<open>
  C3 (as the code has it). In a finished run of the retrying loop for one export call,
  an attempt that is followed by another attempt met a transport failure (the connection
  raised an \<open>HTTPException\<close> or an \<open>OSError\<close>) or a response whose status is 500 or more;
  so an attempt answered with a status from 400 to 499 is never followed by another one.
\<close>

theorem retry_only_after_retryable_failure:
  assumes "retry_upload self bdy hdrs ps env = Some (res, n)" and "Suc i < n"
  shows "i < length env \<and>
     ((\<exists>s. fst (env ! i) (upload_request self bdy hdrs ps) = Status s \<and> 500 \<le> s) \<or>
      (\<exists>m. fst (env ! i) (upload_request self bdy hdrs ps) = RaisesHTTPException m) \<or>
      (\<exists>m. fst (env ! i) (upload_request self bdy hdrs ps) = RaisesOSError m)) \<and>
     (\<forall>s. fst (env ! i) (upload_request self bdy hdrs ps) = Status s \<longrightarrow>
            \<not> (400 \<le> s \<and> s \<le> 499))"
proof -
  from assms have a: "i < length env \<and>
     (\<exists>e. upload_once self bdy hdrs ps (fst (env ! i)) = Inl e \<and>
          (e = TryAgain \<or> retry_if_exception_type e) \<and>
          \<not> stop_after_delay (max_retry_delay self) (snd (env ! i)))"
    unfolding retry_upload_def by (rule Retrying_attempt)
  then obtain e where e: "upload_once self bdy hdrs ps (fst (env ! i)) = Inl e"
    "e = TryAgain \<or> retry_if_exception_type e" by blast
  from upload_once_retried [OF e]
  have k: "(\<exists>s. fst (env ! i) (upload_request self bdy hdrs ps) = Status s \<and> 500 \<le> s) \<or>
      (\<exists>m. fst (env ! i) (upload_request self bdy hdrs ps) = RaisesHTTPException m) \<or>
      (\<exists>m. fst (env ! i) (upload_request self bdy hdrs ps) = RaisesOSError m)" .
  then have "\<forall>s. fst (env ! i) (upload_request self bdy hdrs ps) = Status s \<longrightarrow>
            \<not> (400 \<le> s \<and> s \<le> 499)" by auto
  with a k show ?thesis by blast
qed

theorem retry_only_after_retryable_failure_witness:
  "retry_upload demo_exporter [] [] demo_params demo_attempts =
     Some (Inl (ExportError ''Server returned 404, check your endpoint path.''), 3) \<and>
   Suc 1 < (3::nat) \<and> 1 < length demo_attempts \<and>
   fst (demo_attempts ! 1) (upload_request demo_exporter [] [] demo_params) =
     RaisesOSError ''timed out''"
proof -
  have "Suc 1 < (3::nat)" by simp
  from retry_only_after_retryable_failure [OF retry_upload_demo_attempts this]
  have "1 < length demo_attempts" by simp
  moreover have "fst (demo_attempts ! 1) (upload_request demo_exporter [] [] demo_params) =
     RaisesOSError ''timed out''"
    by (simp add: demo_attempts_def fixed_response_def)
  ultimately show ?thesis
    using retry_upload_demo_attempts by simp
qed

text \<open>
  The specification lets only a transport failure or a 5xx status be followed by a
  retry. A response with status 600 is followed by a second attempt.
\<close>

theorem retry_after_status_600_counterexample:
  "retry_upload demo_exporter [] [] demo_params
     [(fixed_response (Status 600), 1 / 2), (fixed_response (Status 200), 1)] = Some (Inr (), 2)"
  by (simp add: retry_upload_def upload_once_def fixed_response_def
      retry_if_exception_type_def stop_after_delay_def demo_exporter_def
      PyroscopePprofHTTPExporter_def)

subsection \<open>Exhausting the time budget\<close>




subsection \<open>The multipart body\<close>

text \<open>
  C4. For every list of fields with their payloads, empty payloads included, and for the
  16 bytes that \<open>os.urandom(16)\<close> delivers in the call: the boundary is their hexadecimal
  rendering, 32 characters out of \<open>0123456789abcdef\<close>; the body is the parts in the order
  given, each framed as the specification words it, followed by two hyphens, the
  boundary and two hyphens, with nothing after them; the content type is
  \<open>multipart/form-data; boundary=\<close> followed by the same boundary.
\<close>

theorem encode_multipart_formdata_exact:
  assumes "length rnd = 16"
  shows "length (hexlify rnd) = 32 \<and> set (hexlify rnd) \<subseteq> set ''0123456789abcdef'' \<and>
     encode_multipart_formdata rnd data =
       Some (''multipart/form-data; boundary='' @ hexlify rnd,
             concat (map (multipart_part (hexlify rnd)) data) @ ''--'' @ hexlify rnd @ ''--'')"
  using assms set_hexlify [of rnd]
  by (simp add: length_hexlify encode_multipart_formdata_eq hex_lower_def)

theorem encode_multipart_formdata_exact_witness:
  "length demo_urandom = 16 \<and> length (hexlify demo_urandom) = 32 \<and>
   encode_multipart_formdata demo_urandom [(''profile'', ''abc''), (''empty'', [])] =
     Some (''multipart/form-data; boundary=00017f80ff10abcd0a0d22252d5c99e3'',
       ''--00017f80ff10abcd0a0d22252d5c99e3'' @ CRLF
       @ ''Content-Disposition: form-data; name='' @ DQUOTE @ ''profile'' @ DQUOTE
       @ ''; filename='' @ DQUOTE @ ''profile'' @ DQUOTE @ CRLF
       @ ''Content-Type: application/octet-stream'' @ CRLF @ CRLF @ ''abc'' @ CRLF
       @ ''--00017f80ff10abcd0a0d22252d5c99e3'' @ CRLF
       @ ''Content-Disposition: form-data; name='' @ DQUOTE @ ''empty'' @ DQUOTE
       @ ''; filename='' @ DQUOTE @ ''empty'' @ DQUOTE @ CRLF
       @ ''Content-Type: application/octet-stream'' @ CRLF @ CRLF @ CRLF
       @ ''--00017f80ff10abcd0a0d22252d5c99e3--'')"
proof -
  have l: "length demo_urandom = 16" by (simp add: demo_urandom_def)
  from encode_multipart_formdata_exact [OF l, of "[(''profile'', ''abc''), (''empty'', [])]"] l
  show ?thesis by (simp add: hexlify_demo_urandom multipart_part_def)
qed

subsection \<open>The request URL\<close>

text \<open>
  C6. The URL of the request of an export call with service name \<open>s\<close>, start time
  \<open>f\<close> and end time \<open>u\<close> is the endpoint, a question mark and the URL encoding of the
  four parameters \<open>name\<close> = \<open>s\<close>, \<open>spyName\<close> = \<open>ddtrace\<close>, \<open>from\<close> = \<open>f\<close>, \<open>until\<close> =
  \<open>u\<close> in this order; for \<open>helloworld\<close>, 1000 and 2000 the query string is
  \<open>name=helloworld&spyName=ddtrace&from=1000&until=2000\<close>.
\<close>

theorem export_request_url:
  "(\<exists>req. export_request self h events f u = Some req \<and>
      url req = endpoint self @ ''?'' @ ''name='' @ quote_plus (service_name self)
                  @ ''&spyName=ddtrace&from='' @ str_int f @ ''&until='' @ str_int u) \<and>
   urlencode (export_params demo_exporter 1000 2000) =
     ''name=helloworld&spyName=ddtrace&from=1000&until=2000''"
  using urlencode_demo_params
  by (simp add: export_request_eq upload_request_def assemble_url_def urlencode_export_params
      demo_params_def)

subsection \<open>The value \<open>export\<close> returns\<close>

text \<open>
  C8. Whenever \<open>export\<close> returns, it returns the pair of profile and libraries that the
  inherited export produced before the upload, whatever compression, packaging and the
  upload attempts did.
\<close>

theorem export_returns_profile_and_libs:
  assumes "export self h events s e = Some (Inr r)"
  shows "r = pprof_export h events s e"
  using assms
  by (cases "pprof_export h events s e")
    (auto simp: export_def encode_multipart_formdata_eq split: option.splits sum.splits)

theorem export_returns_profile_and_libs_witness:
  "export demo_exporter demo_host () 1000 2000 = Some (Inr (''abc'', [''libpython3.so''])) \<and>
   (''abc'', [''libpython3.so'']) = pprof_export demo_host () 1000 2000"
  using export_returns_profile_and_libs [OF export_demo] export_demo by simp

subsection \<open>Installing the exporter\<close>

text \<open>
  C9. After \<open>patch_ddtrace_to_pyroscope\<close> the profiler's factory of default exporters
  returns a list of one element, the exporter built from the given service name, token
  and endpoint, whatever the factory returned before.
\<close>

theorem patch_installs_single_exporter:
  "build_default_exporters (patch_ddtrace_to_pyroscope sn tok ep mem w) self =
     [PyroscopePprofHTTPExporter sn tok ep 3 False] \<and>
   service_name (PyroscopePprofHTTPExporter sn tok ep 3 False) = sn \<and>
   token (PyroscopePprofHTTPExporter sn tok ep 3 False) = tok \<and>
   endpoint (PyroscopePprofHTTPExporter sn tok ep 3 False) = ep"
  by (simp add: patch_ddtrace_to_pyroscope_def Let_def PyroscopePprofHTTPExporter_def)

subsection \<open>The two parts of an export body\<close>

text \<open>
  C10. The body of the request of every export call has two parts in this order: the
  part \<open>profile\<close> with the compressed serialised profile, then the part
  \<open>sample_type_config\<close> with the constant \<open>SAMPLE_TYPE_CONFIG_JSON\<close>, the same bytes in every
  call: the serialisation, written out below, of a dictionary whose keys are \<open>cpu-time\<close>,
  \<open>wall-time\<close>, \<open>alloc-space\<close> and \<open>heap-space\<close>.
\<close>

theorem export_body_two_parts:
  "(\<exists>req. export_request self h events s e = Some req \<and>
      body req =
        multipart_part (hexlify (urandom16 h))
          (''profile'', gzip_closed h (SerializeToString h (fst (pprof_export h events s e))))
        @ multipart_part (hexlify (urandom16 h)) (''sample_type_config'', SAMPLE_TYPE_CONFIG_JSON)
        @ ''--'' @ hexlify (urandom16 h) @ ''--'') \<and>
   SAMPLE_TYPE_CONFIG_JSON =
     ''{'' @ quoted ''cpu-time'' @ '': {'' @ quoted ''units'' @ '': '' @ quoted ''samples'' @ '', ''
       @ quoted ''aggregation'' @ '': '' @ quoted ''sum'' @ '', ''
       @ quoted ''display-name'' @ '': '' @ quoted ''cpu_time'' @ '', ''
       @ quoted ''sampled'' @ '': true}, ''
     @ quoted ''wall-time'' @ '': {'' @ quoted ''units'' @ '': '' @ quoted ''samples'' @ '', ''
       @ quoted ''aggregation'' @ '': '' @ quoted ''sum'' @ '', ''
       @ quoted ''display-name'' @ '': '' @ quoted ''wall_time'' @ '', ''
       @ quoted ''sampled'' @ '': true}, ''
     @ quoted ''alloc-space'' @ '': {'' @ quoted ''units'' @ '': '' @ quoted ''bytes'' @ '', ''
       @ quoted ''aggregation'' @ '': '' @ quoted ''sum'' @ '', ''
       @ quoted ''display-name'' @ '': '' @ quoted ''alloc_space'' @ '', ''
       @ quoted ''sampled'' @ '': true}, ''
     @ quoted ''heap-space'' @ '': {'' @ quoted ''units'' @ '': '' @ quoted ''bytes'' @ '', ''
       @ quoted ''aggregation'' @ '': '' @ quoted ''average'' @ '', ''
       @ quoted ''display-name'' @ '': '' @ quoted ''heap_space'' @ '', ''
       @ quoted ''sampled'' @ '': false}}'' \<and>
   json_keys SAMPLE_TYPE_CONFIG = [''cpu-time'', ''wall-time'', ''alloc-space'', ''heap-space'']"
proof (intro conjI)
  show "\<exists>req. export_request self h events s e = Some req \<and>
      body req =
        multipart_part (hexlify (urandom16 h))
          (''profile'', gzip_closed h (SerializeToString h (fst (pprof_export h events s e))))
        @ multipart_part (hexlify (urandom16 h)) (''sample_type_config'', SAMPLE_TYPE_CONFIG_JSON)
        @ ''--'' @ hexlify (urandom16 h) @ ''--''"
    by (simp add: export_request_eq upload_request_def export_data_def)
  show "json_keys SAMPLE_TYPE_CONFIG = [''cpu-time'', ''wall-time'', ''alloc-space'', ''heap-space'']"
    by (simp add: SAMPLE_TYPE_CONFIG_def)
qed (rule SAMPLE_TYPE_CONFIG_JSON_eq)

end
